theory Spec2Isabelle
  imports Complex_Main "HOL-Library.Product_Lexorder"
begin


section \<open>JavaScript strings\<close>

text \<open>
  A JavaScript string is a sequence of UTF-16 code units; \<open>length\<close> counts code units.
  Code units are modelled as natural numbers and a string as their list. \<open>js\<close> turns an
  ASCII literal into such a string.
\<close>

type_synonym jsstring = "nat list"

definition js :: "string \<Rightarrow> jsstring" where
  "js s = map of_char s"

definition slash :: nat where
  "slash = 47"

text \<open>JavaScript truthiness of a value that is a string or \<open>null\<close>: \<open>null\<close> and the empty
  string are falsy.\<close>

fun truthy :: "jsstring option \<Rightarrow> bool" where
  "truthy None = False"
| "truthy (Some s) = (s \<noteq> [])"

text \<open>\<open>a || b\<close> where \<open>a\<close> is a string or \<open>null\<close>, and where \<open>b\<close> is a string.\<close>

definition or_else :: "jsstring option \<Rightarrow> jsstring option \<Rightarrow> jsstring option" where
  "or_else a b = (if truthy a then a else b)"

definition or_str :: "jsstring option \<Rightarrow> jsstring \<Rightarrow> jsstring" where
  "or_str a d = (case a of None \<Rightarrow> d | Some s \<Rightarrow> if s \<noteq> [] then s else d)"

section \<open>frontend/script.js: resolveApiBase\<close>

definition DEFAULT_API_URL :: jsstring where
  "DEFAULT_API_URL = js ''http://127.0.0.1:8001''"

text \<open>
  \<open>s.replace(/\/+$/, "")\<close>: the regular expression is searched from the left; at a position
  it matches when a run of one or more slashes there reaches the end of the string (no
  \<open>m\<close> flag, so \<open>$\<close> is the end of input only). The first match is replaced by the empty
  string; with no match the string is returned as it is.
\<close>

fun replace_trailing_slashes :: "jsstring \<Rightarrow> jsstring" where
  "replace_trailing_slashes [] = []"
| "replace_trailing_slashes (c # cs) =
     (if c = slash \<and> list_all (\<lambda>d. d = slash) cs then []
      else c # replace_trailing_slashes cs)"

text \<open>
  \<open>fromStorage\<close> is \<open>localStorage.getItem("api_base_url")\<close>: a string, or \<open>null\<close> (\<open>None\<close>)
  when the key is not set. \<open>window_API_URL\<close> is \<open>None\<close> when \<open>window\<close> is undefined or has no
  \<open>API_URL\<close>, and the configured string otherwise.
\<close>

definition resolveApiBase :: "jsstring option \<Rightarrow> jsstring option \<Rightarrow> jsstring" where
  "resolveApiBase fromStorage window_API_URL =
     (let fromGlobal = (if truthy window_API_URL then window_API_URL else None);
          base = replace_trailing_slashes
                   (or_str (or_else fromStorage fromGlobal) (or_str (Some DEFAULT_API_URL) []))
      in or_str (Some base) DEFAULT_API_URL)"

text \<open>
  The claim's words, for comparison: the value preferred among the three sources, and
  the removal of every trailing slash.
\<close>

definition preferred_base :: "jsstring option \<Rightarrow> jsstring option \<Rightarrow> jsstring" where
  "preferred_base fromStorage window_API_URL =
     (case fromStorage of
        Some s \<Rightarrow> if s \<noteq> [] then s else or_str window_API_URL DEFAULT_API_URL
      | None \<Rightarrow> or_str window_API_URL DEFAULT_API_URL)"

definition strip_all_trailing :: "jsstring \<Rightarrow> jsstring" where
  "strip_all_trailing s = rev (dropWhile (\<lambda>c. c = slash) (rev s))"

section \<open>String operations used by the form handler\<close>

text \<open>
  White space as \<open>String.prototype.trim\<close> and the regular expression class \<open>\s\<close> see it:
  the ECMAScript WhiteSpace and LineTerminator code points (TAB, LF, VT, FF, CR, SPACE,
  U+00A0, U+1680, U+2000 to U+200A, U+2028, U+2029, U+202F, U+205F, U+3000, U+FEFF).
\<close>

definition is_space :: "nat \<Rightarrow> bool" where
  "is_space c =
     (c = 9 \<or> c = 10 \<or> c = 11 \<or> c = 12 \<or> c = 13 \<or> c = 32 \<or> c = 160 \<or> c = 5760 \<or>
      (8192 \<le> c \<and> c \<le> 8202) \<or> c = 8232 \<or> c = 8233 \<or> c = 8239 \<or> c = 8287 \<or>
      c = 12288 \<or> c = 65279)"

definition trim :: "jsstring \<Rightarrow> jsstring" where
  "trim s = rev (dropWhile is_space (rev (dropWhile is_space s)))"

text \<open>\<open>s.split(",")\<close>: the pieces between commas; the empty string gives one empty piece.\<close>

fun split_comma :: "jsstring \<Rightarrow> jsstring list" where
  "split_comma [] = [[]]"
| "split_comma (c # cs) =
     (if c = 44 then [] # split_comma cs
      else (case split_comma cs of
              [] \<Rightarrow> [[c]]
            | w # ws \<Rightarrow> (c # w) # ws))"

text \<open>\<open>pieces.join(",")\<close>, against which \<open>split_comma\<close> is checked below.\<close>

fun join_comma :: "jsstring list \<Rightarrow> jsstring" where
  "join_comma [] = []"
| "join_comma [w] = w"
| "join_comma (w # v # ws) = w @ 44 # join_comma (v # ws)"

text \<open>\<open>s.replace(/\s+/g, "_")\<close>: every maximal run of white space becomes one underscore.\<close>

function replace_ws :: "jsstring \<Rightarrow> jsstring" where
  "replace_ws [] = []"
| "replace_ws (c # cs) =
     (if is_space c then 95 # replace_ws (dropWhile is_space cs)
      else c # replace_ws cs)"
  by pat_completeness auto
termination
  by (relation "measure length") (auto simp: length_dropWhile_le less_Suc_eq_le)

text \<open>\<open>/^[a-z0-9_-]+$/.test(t)\<close>: one or more code units, each a lower-case ASCII letter,
  a digit, an underscore or a hyphen.\<close>

definition is_topic_char :: "nat \<Rightarrow> bool" where
  "is_topic_char c = ((97 \<le> c \<and> c \<le> 122) \<or> (48 \<le> c \<and> c \<le> 57) \<or> c = 95 \<or> c = 45)"

definition matches_topic_pattern :: "jsstring \<Rightarrow> bool" where
  "matches_topic_pattern t = (t \<noteq> [] \<and> list_all is_topic_char t)"

text \<open>Decimal digits of a number, as a template literal prints an integer.\<close>

function decimal :: "nat \<Rightarrow> jsstring" where
  "decimal n = (if n < 10 then [48 + n] else decimal (n div 10) @ [48 + n mod 10])"
  by pat_completeness auto
termination
  by (relation "measure id") auto

section \<open>frontend/script.js: setStatus and submitCustomArticle\<close>

text \<open>
  The page state that \<open>submitCustomArticle\<close> reads and writes: the values of the five form
  inputs, the status element (\<open>None\<close> while \<open>statusEl\<close> is not set), the elements that show
  the generated petition, the tab classes, the globals \<open>currentDraftId\<close>, \<open>authToken\<close> and
  \<open>API_URL\<close>, and the requests handed to \<open>fetch\<close> so far. The elements looked up by id are
  taken to exist. Console output is not part of the state.
\<close>

record status_el =
  textContent :: jsstring
  className :: jsstring

record payload =
  article_summary :: jsstring
  article_text :: "jsstring option"
  title :: jsstring
  source :: jsstring
  topics :: "jsstring list"

record request =
  url :: jsstring
  http_method :: jsstring
  headers :: "(jsstring \<times> jsstring) list"
  body :: payload

record page =
  customSummary :: jsstring
  customDetails :: jsstring
  customArticleTitle :: jsstring
  customSource :: jsstring
  customTopics :: jsstring
  statusEl :: "status_el option"
  newsTitle :: jsstring
  summary_text :: jsstring
  elaboratedFacts :: jsstring
  articleSource :: jsstring
  articleDate :: jsstring
  severityScore :: jsstring
  priorityLevel_text :: jsstring
  priorityLevel_class :: jsstring
  entityList :: "jsstring list"
  tab_buttons :: "(jsstring \<times> bool) list"
  urlMode_active :: bool
  textMode_active :: bool
  currentDraftId :: "jsstring option"
  authToken :: jsstring
  API_URL :: jsstring
  requests :: "request list"

text \<open>
  What the awaited \<open>fetch\<close> and \<open>res.json()\<close> give back: a rejection with the error's
  message, a response whose \<open>ok\<close> is false (status and status text), or the decoded body.
  A body field that is falsy in JavaScript (absent, \<open>null\<close>, \<open>0\<close>, the empty string) is
  \<open>None\<close>; otherwise it is the field's string conversion.
\<close>

record pil_data =
  severity_score :: "jsstring option"
  priority_level :: "jsstring option"
  entities_detected :: "jsstring list"
  draft_id :: "jsstring option"

datatype fetch_outcome =
    Rejected jsstring
  | NotOk nat jsstring
  | Ok pil_data

definition setStatus :: "jsstring \<Rightarrow> jsstring \<Rightarrow> page \<Rightarrow> page" where
  "setStatus msg type p =
     (case statusEl p of
        None \<Rightarrow> p
      | Some el \<Rightarrow>
          p\<lparr>statusEl := Some (el\<lparr>textContent := msg, className := js ''status '' @ type\<rparr>)\<rparr>)"

definition build_payload ::
  "jsstring \<Rightarrow> jsstring \<Rightarrow> jsstring \<Rightarrow> jsstring \<Rightarrow> jsstring list \<Rightarrow> payload" where
  "build_payload summary details ttl src tps =
     \<lparr>article_summary = summary,
      article_text = (if details \<noteq> [] then Some details else None),
      title = or_str (Some ttl) (js ''Custom Submission''),
      source = or_str (Some src) (js ''User Submission''),
      topics = (if length tps > 0 then tps else [js ''general''])\<rparr>"

text \<open>\<open>querySelector('[data-mode="url"]')\<close>: the first element of the page with that
  attribute, or \<open>null\<close>. The elements that carry a \<open>data-mode\<close> are the tab buttons.\<close>

definition has_mode :: "jsstring \<Rightarrow> (jsstring \<times> bool) list \<Rightarrow> bool" where
  "has_mode m bs = list_ex (\<lambda>b. fst b = m) bs"

text \<open>\<open>classList.add('active')\<close> on that first element.\<close>

fun activate_first :: "jsstring \<Rightarrow> (jsstring \<times> bool) list \<Rightarrow> (jsstring \<times> bool) list" where
  "activate_first m [] = []"
| "activate_first m ((k, a) # bs) =
     (if k = m then (k, True) # bs else (k, a) # activate_first m bs)"

text \<open>
  The success branch, which runs inside the \<open>try\<close>: the page shows the generated petition,
  the success status is set, the form is cleared, every tab button loses \<open>active\<close> and the
  URL tab is selected. \<open>today\<close> is \<open>new Date().toLocaleDateString()\<close>. When no element
  has \<open>data-mode="url"\<close>, reading \<open>classList\<close> of \<open>null\<close> throws a TypeError there: the
  two statements after it do not run and the \<open>catch\<close> sets the failure status.
  \<open>null_message\<close> is the message the runtime gives that TypeError.
\<close>

definition show_generated ::
  "jsstring \<Rightarrow> jsstring \<Rightarrow> jsstring \<Rightarrow> jsstring \<Rightarrow> jsstring \<Rightarrow> jsstring \<Rightarrow> pil_data \<Rightarrow> page \<Rightarrow> page" where
  "show_generated today null_message summary details ttl src d p =
     (let p1 = p\<lparr>newsTitle := or_str (Some ttl) (js ''Generated PIL''),
                  summary_text := summary,
                  elaboratedFacts := js ''<p>'' @ or_str (Some details) summary @ js ''</p>'',
                  articleSource := [55357, 56560, 32] @ or_str (Some src) (js ''Custom''),
                  articleDate := [55357, 56517, 32] @ today,
                  severityScore := or_str (severity_score d) [8212] @ js '' / 10'',
                  priorityLevel_text := or_str (priority_level d) (js ''MEDIUM''),
                  priorityLevel_class := or_str (priority_level d) (js ''MEDIUM''),
                  entityList := entities_detected d\<rparr>;
          p2 = (if truthy (draft_id d) then p1\<lparr>currentDraftId := draft_id d\<rparr> else p1);
          p3 = setStatus ([10003] @ js '' Custom PIL generated! Click 'View & Edit PIL' to customize.'')
                 (js ''success'') p2;
          p4 = p3\<lparr>customSummary := [], customDetails := [], customArticleTitle := [],
                  customSource := [], customTopics := [],
                  tab_buttons := map (\<lambda>b. (fst b, False)) (tab_buttons p3)\<rparr>
      in if has_mode (js ''url'') (tab_buttons p4) then
           p4\<lparr>tab_buttons := activate_first (js ''url'') (tab_buttons p4),
              urlMode_active := True, textMode_active := False\<rparr>
         else
           setStatus (js ''Failed to generate PIL: '' @ null_message) (js ''error'') p4)"

text \<open>
  \<open>toLowerCase\<close> is the runtime's \<open>String.prototype.toLowerCase\<close>; \<open>today\<close> and
  \<open>null_message\<close> are as in \<open>show_generated\<close>; \<open>outcome\<close> is what the awaited request gives.
\<close>

definition submitCustomArticle ::
  "(jsstring \<Rightarrow> jsstring) \<Rightarrow> jsstring \<Rightarrow> jsstring \<Rightarrow> fetch_outcome \<Rightarrow> page \<Rightarrow> page" where
  "submitCustomArticle toLowerCase today null_message outcome p =
     (let summary = trim (customSummary p);
          details = trim (customDetails p);
          ttl = trim (customArticleTitle p);
          src = trim (customSource p);
          topicsRaw = trim (customTopics p)
      in if summary = [] \<or> length summary < 10 then
           setStatus (js ''Case summary is required (min 10 characters)'') (js ''error'') p
         else if length summary > 8000 then
           setStatus (js ''Case summary is too long (max 8000 characters)'') (js ''error'') p
         else if details \<noteq> [] \<and> length details > 12000 then
           setStatus (js ''Full details is too long (max 12000 characters)'') (js ''error'') p
         else
           (let tps = filter (\<lambda>t. length t > 0 \<and> matches_topic_pattern t)
                        (map (\<lambda>t. replace_ws (toLowerCase (trim t))) (split_comma topicsRaw));
                p1 = setStatus (js ''Generating PIL from custom submission...'') (js ''info'') p;
                hdrs = (js ''Content-Type'', js ''application/json'') #
                       (if authToken p \<noteq> []
                        then [(js ''Authorization'', js ''Bearer '' @ authToken p)] else []);
                p2 = p1\<lparr>requests := requests p1 @
                        [\<lparr>url = API_URL p @ js ''/generate-pil'', http_method = js ''POST'',
                          headers = hdrs,
                          body = build_payload summary details ttl src tps\<rparr>]\<rparr>
            in case outcome of
                 Rejected msg \<Rightarrow>
                   setStatus (js ''Failed to generate PIL: '' @ msg) (js ''error'') p2
               | NotOk st txt \<Rightarrow>
                   setStatus (js ''Failed to generate PIL: '' @ js ''HTTP '' @ decimal st @ js '': '' @ txt)
                     (js ''error'') p2
               | Ok d \<Rightarrow> show_generated today null_message summary details ttl src d p2))"

text \<open>Concrete inputs for the examples: a page with an empty form, pages with a valid
  summary and given topics, and lower-casing of ASCII letters (what \<open>toLowerCase\<close> does on
  ASCII text).\<close>

definition blank_page :: page where
  "blank_page =
     \<lparr>customSummary = [], customDetails = [], customArticleTitle = [], customSource = [],
      customTopics = [], statusEl = Some \<lparr>textContent = [], className = []\<rparr>,
      newsTitle = [], summary_text = [], elaboratedFacts = [], articleSource = [],
      articleDate = [], severityScore = [], priorityLevel_text = [], priorityLevel_class = [],
      entityList = [], tab_buttons = [(js ''url'', False), (js ''text'', True)],
      urlMode_active = False, textMode_active = True, currentDraftId = None,
      authToken = [], API_URL = DEFAULT_API_URL, requests = []\<rparr>"

definition ascii_lower :: "jsstring \<Rightarrow> jsstring" where
  "ascii_lower s = map (\<lambda>c. if 65 \<le> c \<and> c \<le> 90 then c + 32 else c) s"

definition page_with_topics :: "jsstring \<Rightarrow> page" where
  "page_with_topics raw =
     blank_page\<lparr>customSummary := js '' A road was flooded. '', customTopics := raw\<rparr>"

section \<open>Text normalisation and substring search (spec 4.1, step 1 and 3)\<close>

text \<open>Modelled from the spec: lower-casing of a character, for "Normalize issue_text
  (lowercase, whitespace-collapse)"; the matcher (backend/rag_pipeline.py) and the scorer
  (backend/severity_scoring.py) are not among the sources. ASCII letters are lower-cased,
  other characters stay.\<close>

definition lower_char :: "char \<Rightarrow> char" where
  "lower_char c =
     (case map_of (zip ''ABCDEFGHIJKLMNOPQRSTUVWXYZ'' ''abcdefghijklmnopqrstuvwxyz'') c of
        None \<Rightarrow> c
      | Some l \<Rightarrow> l)"

text \<open>Modelled from the spec: the white-space characters that normalisation collapses
  (space, tab, line feed, vertical tab, form feed, carriage return); the matcher and the
  scorer are not among the sources.\<close>

definition is_ws :: "char \<Rightarrow> bool" where
  "is_ws c = (c = CHR '' '' \<or> c = CHR 0x09 \<or> c = CHR 0x0A \<or> c = CHR 0x0B \<or> c = CHR 0x0C \<or> c = CHR 0x0D)"

text \<open>Modelled from the spec: "whitespace-collapse", every maximal run of white space
  becomes one space; the matcher and the scorer are not among the sources.\<close>

function collapse_ws :: "string \<Rightarrow> string" where
  "collapse_ws [] = []"
| "collapse_ws (c # cs) =
     (if is_ws c then CHR '' '' # collapse_ws (dropWhile is_ws cs)
      else c # collapse_ws cs)"
  by pat_completeness auto
termination
  by (relation "measure length") (auto simp: length_dropWhile_le less_Suc_eq_le)

text \<open>Modelled from the spec: step 1 of the matcher and of the scorer, "Normalize
  issue_text (lowercase, whitespace-collapse)"; the matcher and the scorer are not among
  the sources.\<close>

definition normalize_text :: "string \<Rightarrow> string" where
  "normalize_text text = collapse_ws (map lower_char text)"

text \<open>Modelled from the spec: a keyword stands at the front of a text; part of "occur as
  substrings in the normalized text"; the matcher and the scorer are not among the
  sources.\<close>

fun starts_with :: "string \<Rightarrow> string \<Rightarrow> bool" where
  "starts_with [] t = True"
| "starts_with (k # ks) [] = False"
| "starts_with (k # ks) (c # cs) = (k = c \<and> starts_with ks cs)"

text \<open>Modelled from the spec: a keyword occurs as a substring of a text (the empty keyword
  occurs in every text); the matcher and the scorer are not among the sources.\<close>

fun occurs_in :: "string \<Rightarrow> string \<Rightarrow> bool" where
  "occurs_in k [] = (k = [])"
| "occurs_in k (c # cs) = (starts_with k (c # cs) \<or> occurs_in k cs)"

section \<open>Pattern table and fact matcher (spec 3 and 4.1)\<close>

text \<open>A statute section identifier, such as 137 or 69.\<close>

type_synonym section_id = string

text \<open>Modelled from the spec: the CrimeFamily record of the pattern table
  (backend/rag_pipeline.py is not among the sources). The regular expression is held
  compiled, as the predicate that tells whether it matches a normalised text;
  \<open>augmented_terms\<close> are the keywords the term augmenter merged in, empty in the base
  table.\<close>

record crime_family =
  family_id :: string
  regex_pattern :: "string \<Rightarrow> bool"
  priority :: int
  targeted_sections :: "section_id list"
  primary_keywords :: "string list"
  secondary_keywords :: "string list"
  augmented_terms :: "string list"

text \<open>Modelled from the spec: "min_keyword_matches (derived from priority: 1 if
  priority \<ge> 100, else 2)"; the matcher's code is not among the sources.\<close>

definition min_keyword_matches :: "crime_family \<Rightarrow> nat" where
  "min_keyword_matches f = (if priority f \<ge> 100 then 1 else 2)"

text \<open>Modelled from the spec: the term augmenter, which merges the extra keywords of each
  targeted section into a family's keyword set and leaves the base definitions as they
  are; its code is not among the sources.\<close>

definition augment :: "(section_id \<rightharpoonup> string list) \<Rightarrow> crime_family list \<Rightarrow> crime_family list" where
  "augment terms table =
     map (\<lambda>f. f\<lparr>augmented_terms :=
                   concat (map (\<lambda>s. case terms s of None \<Rightarrow> [] | Some ks \<Rightarrow> ks)
                             (targeted_sections f))\<rparr>) table"

text \<open>Modelled from the spec: step 3 of the matcher, the number of keywords of
  primary_keywords \<union> secondary_keywords \<union> augmented_terms that occur as substrings of the
  normalised text; the matcher's code is not among the sources.\<close>

definition keyword_match_count :: "crime_family \<Rightarrow> string \<Rightarrow> nat" where
  "keyword_match_count f text =
     length (filter (\<lambda>k. occurs_in k text)
               (remdups (primary_keywords f @ secondary_keywords f @ augmented_terms f)))"

text \<open>Modelled from the spec: steps 2 and 4 of the matcher, the gate that makes a family
  triggered; the matcher's code is not among the sources.\<close>

definition triggered :: "crime_family \<Rightarrow> string \<Rightarrow> bool" where
  "triggered f text =
     (regex_pattern f text \<and> keyword_match_count f text \<ge> min_keyword_matches f)"

text \<open>Modelled from the spec: an entry of a MatchResult, a section with the family that
  produced it and its rank annotation (priority, keyword-match count) and the family's
  place in the table; the matcher's code is not among the sources.\<close>

record candidate =
  sec :: section_id
  matched_family :: string
  cand_priority :: int
  keyword_matches :: nat
  declaration_order :: nat

text \<open>Modelled from the spec: step 4, the candidates of one family, which stands at place
  \<open>i\<close> of the table; the matcher's code is not among the sources.\<close>

definition family_candidates :: "string \<Rightarrow> nat \<times> crime_family \<Rightarrow> candidate list" where
  "family_candidates text entry =
     (case entry of (i, f) \<Rightarrow>
        if triggered f text
        then map (\<lambda>s. \<lparr>sec = s, matched_family = family_id f, cand_priority = priority f,
                        keyword_matches = keyword_match_count f text,
                        declaration_order = i\<rparr>) (targeted_sections f)
        else [])"

text \<open>Modelled from the spec: step 2, the families taken in priority-descending order
  (a stable sort, so equal priorities keep their declaration order); the matcher's code is
  not among the sources.\<close>

definition families_by_priority :: "crime_family list \<Rightarrow> (nat \<times> crime_family) list" where
  "families_by_priority table = sort_key (\<lambda>e. - priority (snd e)) (enumerate 0 table)"

text \<open>Modelled from the spec: step 5, the sort key (priority desc, keyword_match_count
  desc, declaration_order asc), compared lexicographically; the matcher's code is not among
  the sources.\<close>

definition rank_key :: "candidate \<Rightarrow> int \<times> int \<times> nat" where
  "rank_key c = (- cand_priority c, - int (keyword_matches c), declaration_order c)"

text \<open>Modelled from the spec: step 5, deduplication of sections, "keeping the
  highest-ranked occurrence of each": the sorted candidates are read from the front and a
  section seen before is skipped; the matcher's code is not among the sources.\<close>

fun dedup_sections :: "section_id list \<Rightarrow> candidate list \<Rightarrow> candidate list" where
  "dedup_sections seen [] = []"
| "dedup_sections seen (c # cs) =
     (if sec c \<in> set seen then dedup_sections seen cs
      else c # dedup_sections (sec c # seen) cs)"

text \<open>Modelled from the spec: all candidates of a normalised text, before sorting; the
  matcher's code is not among the sources.\<close>

definition all_candidates :: "string \<Rightarrow> crime_family list \<Rightarrow> candidate list" where
  "all_candidates text table =
     concat (map (family_candidates text) (families_by_priority table))"

text \<open>Modelled from the spec: the contract \<open>match(issue_text, pattern_table) -> MatchResult\<close>
  of section 4.1, steps 1 to 6; the matcher's code (backend/rag_pipeline.py) is not among
  the sources. The matcher returns the full ranked list.\<close>

definition match :: "string \<Rightarrow> crime_family list \<Rightarrow> candidate list" where
  "match issue_text pattern_table =
     dedup_sections [] (sort_key rank_key (all_candidates (normalize_text issue_text) pattern_table))"

text \<open>Modelled from the spec: the ordering invariant of a MatchResult written out, "sorted
  by descending CrimeFamily priority, ties broken by keyword-match count descending, then
  by declaration order"; \<open>a\<close> may stand before \<open>b\<close>.\<close>

definition ranked_before :: "candidate \<Rightarrow> candidate \<Rightarrow> bool" where
  "ranked_before a b =
     (cand_priority a > cand_priority b \<or>
      (cand_priority a = cand_priority b \<and>
        (keyword_matches a > keyword_matches b \<or>
         (keyword_matches a = keyword_matches b \<and> declaration_order a \<le> declaration_order b))))"

section \<open>Evaluation harness (spec 3 and 4.3)\<close>

text \<open>Modelled from the spec: the TrainingExample record of section 3; the harness
  (scripts/eval_fact2law.py) and the dataset are not among the sources.\<close>

record training_example =
  issue_summary :: string
  crime_signals :: "string list"
  applicable_sections :: "section_id list"
  hard_negatives :: "section_id list"
  element_coverage :: "(string \<times> bool) list"

text \<open>Modelled from the spec: the ranked section ids the matcher predicts for an example
  ("for each example, run the Fact Matcher"); the harness is not among the sources.\<close>

definition predictions :: "crime_family list \<Rightarrow> training_example \<Rightarrow> section_id list" where
  "predictions table ex = map sec (match (issue_summary ex) table)"

text \<open>Modelled from the spec: an example is a hit at \<open>k\<close> when
  \<open>predictions[:k] \<inter> applicable_sections \<noteq> \<emptyset>\<close>; the harness is not among the sources.\<close>

definition hit :: "nat \<Rightarrow> crime_family list \<Rightarrow> training_example \<Rightarrow> bool" where
  "hit k table ex =
     list_ex (\<lambda>s. s \<in> set (applicable_sections ex)) (take k (predictions table ex))"

text \<open>Modelled from the spec: an example avoids its negatives at \<open>k\<close> when
  \<open>predictions[:k] \<inter> hard_negatives = \<emptyset>\<close>; the harness is not among the sources.\<close>

definition avoids_neg :: "nat \<Rightarrow> crime_family list \<Rightarrow> training_example \<Rightarrow> bool" where
  "avoids_neg k table ex =
     (\<not> list_ex (\<lambda>s. s \<in> set (hard_negatives ex)) (take k (predictions table ex)))"

text \<open>Modelled from the spec: "fraction of examples where ..."; the harness is not among
  the sources. The spec gives no value for an empty dataset; the model gives 0 there.\<close>

definition fraction :: "nat \<Rightarrow> nat \<Rightarrow> rat" where
  "fraction n d = (if d = 0 then 0 else of_nat n / of_nat d)"

text \<open>Modelled from the spec: \<open>hit@k\<close> over a sequence of examples; the harness is not
  among the sources.\<close>

definition hit_at :: "nat \<Rightarrow> training_example list \<Rightarrow> crime_family list \<Rightarrow> rat" where
  "hit_at k dataset table = fraction (length (filter (hit k table) dataset)) (length dataset)"

text \<open>Modelled from the spec: \<open>avoid_neg@k\<close> over a sequence of examples; the harness is
  not among the sources.\<close>

definition avoid_neg_at :: "nat \<Rightarrow> training_example list \<Rightarrow> crime_family list \<Rightarrow> rat" where
  "avoid_neg_at k dataset table =
     fraction (length (filter (avoids_neg k table) dataset)) (length dataset)"

text \<open>Modelled from the spec: the metrics of an EvaluationReport for one cutoff; the
  harness is not among the sources.\<close>

record metrics =
  cutoff :: nat
  hit_rate :: rat
  avoid_neg_rate :: rat

text \<open>Modelled from the spec: the EvaluationReport of section 3, with the overall
  metrics, the metrics per crime family and the failing examples (place in the dataset,
  predicted sections, expected sections); the harness is not among the sources.\<close>

record evaluation_report =
  overall :: "metrics list"
  per_family :: "(string \<times> metrics list) list"
  failing_examples :: "(nat \<times> section_id list \<times> section_id list) list"

text \<open>Modelled from the spec: the metrics of a sequence of examples at the requested
  cutoffs; the harness is not among the sources.\<close>

definition metrics_at :: "nat list \<Rightarrow> training_example list \<Rightarrow> crime_family list \<Rightarrow> metrics list" where
  "metrics_at k_values dataset table =
     map (\<lambda>k. \<lparr>cutoff = k, hit_rate = hit_at k dataset table,
                avoid_neg_rate = avoid_neg_at k dataset table\<rparr>) k_values"

text \<open>Modelled from the spec: "an example belongs to a family if any of its
  applicable_sections is in that family's targeted_sections"; the harness is not among the
  sources.\<close>

definition belongs_to :: "crime_family \<Rightarrow> training_example \<Rightarrow> bool" where
  "belongs_to f ex = list_ex (\<lambda>s. s \<in> set (targeted_sections f)) (applicable_sections ex)"

text \<open>Modelled from the spec: the contract
  \<open>evaluate(dataset, pattern_table, k_values) -> EvaluationReport\<close> of section 4.3; the
  harness (scripts/eval_fact2law.py) is not among the sources. \<open>max_failing\<close> is the
  configured cap on the failing examples, which are those that miss at \<open>k = 1\<close>, in
  dataset order.\<close>

definition evaluate ::
  "nat \<Rightarrow> training_example list \<Rightarrow> crime_family list \<Rightarrow> nat list \<Rightarrow> evaluation_report" where
  "evaluate max_failing dataset table k_values =
     \<lparr>overall = metrics_at k_values dataset table,
      per_family =
        map (\<lambda>f. (family_id f, metrics_at k_values (filter (belongs_to f) dataset) table)) table,
      failing_examples =
        take max_failing
          (map (\<lambda>e. (fst e, predictions table (snd e), applicable_sections (snd e)))
             (filter (\<lambda>e. \<not> hit 1 table (snd e)) (enumerate 0 dataset)))\<rparr>"

section \<open>Severity scorer (spec 3 and 4.2)\<close>

text \<open>Modelled from the spec: the three severity bands of the keyword tiers; the scorer
  (backend/severity_scoring.py) is not among the sources.\<close>

datatype tier = CRITICAL_TIER | HIGH_TIER | MEDIUM_TIER

text \<open>Modelled from the spec: the priority levels of a SeverityResult; the scorer is not
  among the sources.\<close>

datatype level = CRITICAL | HIGH | MEDIUM | LOW

text \<open>Modelled from the spec: a keyword of the tier tables with its band and base weight;
  the scorer is not among the sources. Weights and scores are rational numbers.\<close>

record tier_keyword =
  keyword :: string
  tier :: tier
  weight :: rat

text \<open>Modelled from the spec: a multiplier rule, with the phrases that trigger it; the
  scorer is not among the sources.\<close>

record multiplier_rule =
  multiplier_name :: string
  factor :: rat
  trigger_phrases :: "string list"

text \<open>Modelled from the spec: the scorer's configuration, the keyword tiers and the
  multiplier rules in declared order, the length under which a text is too short, and the
  cutpoints of the priority levels; the scorer is not among the sources.\<close>

record severity_config =
  keyword_tiers :: "tier_keyword list"
  multiplier_rules :: "multiplier_rule list"
  min_text_length :: nat
  critical_cut :: rat
  high_cut :: rat
  medium_cut :: rat

text \<open>Modelled from the spec: the SeverityResult of section 3; the scorer is not among the
  sources.\<close>

record severity_result =
  score :: rat
  keywords_found :: "(string \<times> rat) list"
  multipliers_applied :: "(string \<times> rat) list"
  priority_level :: level

text \<open>Modelled from the spec: step 2, "every keyword across all tiers found as a
  substring" of the normalised text; the scorer is not among the sources.\<close>

definition matched_keywords :: "severity_config \<Rightarrow> string \<Rightarrow> tier_keyword list" where
  "matched_keywords cfg t = filter (\<lambda>e. occurs_in (keyword e) t) (keyword_tiers cfg)"

text \<open>Modelled from the spec: "the maximum weight found among matched keywords", and 0
  when nothing is matched; the scorer is not among the sources.\<close>

fun max_weight :: "rat list \<Rightarrow> rat" where
  "max_weight [] = 0"
| "max_weight [w] = w"
| "max_weight (w # v # ws) = max w (max_weight (v # ws))"

text \<open>Modelled from the spec: the running score before the bonus; the scorer is not among
  the sources.\<close>

definition base_score :: "severity_config \<Rightarrow> string \<Rightarrow> rat" where
  "base_score cfg t = max_weight (map weight (matched_keywords cfg t))"

text \<open>Modelled from the spec: the mass-incident condition, read as the co-occurrence of
  two or more distinct CRITICAL keywords; the scorer is not among the sources.\<close>

definition mass_incident :: "severity_config \<Rightarrow> string \<Rightarrow> bool" where
  "mass_incident cfg t =
     (2 \<le> length (remdups (map keyword
             (filter (\<lambda>e. tier e = CRITICAL_TIER) (matched_keywords cfg t)))))"

text \<open>Modelled from the spec: step 3, the multipliers with a trigger phrase in the text, in
  declared order, each at most once; the scorer is not among the sources.\<close>

definition applied_multipliers :: "severity_config \<Rightarrow> string \<Rightarrow> multiplier_rule list" where
  "applied_multipliers cfg t =
     filter (\<lambda>m. list_ex (\<lambda>p. occurs_in p t) (trigger_phrases m)) (multiplier_rules cfg)"

text \<open>Modelled from the spec: step 4, "clamp final score to [0, 1]"; the scorer is not
  among the sources.\<close>

definition clamp01 :: "rat \<Rightarrow> rat" where
  "clamp01 x = max 0 (min 1 x)"

text \<open>Modelled from the spec: steps 2 to 4 on a normalised text, the maximum weight, plus
  0.15 on a mass incident, times the factors of the applied multipliers one after the
  other, clamped; the scorer is not among the sources.\<close>

definition final_score :: "severity_config \<Rightarrow> string \<Rightarrow> rat" where
  "final_score cfg t =
     clamp01 (foldl (\<lambda>s m. s * factor m)
                (if mass_incident cfg t then base_score cfg t + 15 / 100 else base_score cfg t)
                (applied_multipliers cfg t))"

text \<open>Modelled from the spec: step 5, the priority level of a score by configured
  cutpoints; the scorer is not among the sources.\<close>

definition level_of :: "severity_config \<Rightarrow> rat \<Rightarrow> level" where
  "level_of cfg s =
     (if s \<ge> critical_cut cfg then CRITICAL
      else if s \<ge> high_cut cfg then HIGH
      else if s \<ge> medium_cut cfg then MEDIUM
      else LOW)"

text \<open>Modelled from the spec: the texts that the failure policy calls "empty/too-short";
  the scorer is not among the sources.\<close>

definition too_short :: "severity_config \<Rightarrow> string \<Rightarrow> bool" where
  "too_short cfg t = (t = [] \<or> length t < min_text_length cfg)"

text \<open>Modelled from the spec: the contract \<open>score(issue_text, keyword_tiers,
  multiplier_rules) -> SeverityResult\<close> of section 4.2, with its failure policy for empty
  and too-short text; the scorer (backend/severity_scoring.py) is not among the sources.\<close>

definition severity :: "severity_config \<Rightarrow> string \<Rightarrow> severity_result" where
  "severity cfg issue_text =
     (let t = normalize_text issue_text
      in if too_short cfg t then
           \<lparr>score = 0, keywords_found = [], multipliers_applied = [],
            priority_level = level_of cfg 0\<rparr>
         else
           \<lparr>score = final_score cfg t,
            keywords_found = map (\<lambda>e. (keyword e, weight e)) (matched_keywords cfg t),
            multipliers_applied = map (\<lambda>m. (multiplier_name m, factor m)) (applied_multipliers cfg t),
            priority_level = level_of cfg (final_score cfg t)\<rparr>)"

section \<open>Example configuration\<close>

text \<open>A small pattern table, a dataset and a scorer configuration for the examples. The
  weights and multipliers are those of the README's scoring table; the families stand in
  for the pattern table, which is not among the sources.\<close>

definition theft_family :: crime_family where
  "theft_family =
     \<lparr>family_id = ''theft'',
      regex_pattern = (\<lambda>t. occurs_in ''stole'' t \<or> occurs_in ''snatch'' t),
      priority = 80, targeted_sections = [''303'', ''304''],
      primary_keywords = [''stolen'', ''theft''], secondary_keywords = [''goods''],
      augmented_terms = []\<rparr>"

definition robbery_family :: crime_family where
  "robbery_family =
     \<lparr>family_id = ''robbery'',
      regex_pattern = (\<lambda>t. occurs_in ''by force'' t),
      priority = 90, targeted_sections = [''309'', ''303''],
      primary_keywords = [''force'', ''robbed''], secondary_keywords = [''snatched''],
      augmented_terms = []\<rparr>"

definition kidnapping_family :: crime_family where
  "kidnapping_family =
     \<lparr>family_id = ''kidnapping'',
      regex_pattern = (\<lambda>t. occurs_in ''kidnap'' t \<or> occurs_in ''abduct'' t),
      priority = 100, targeted_sections = [''137'', ''138'', ''139''],
      primary_keywords = [''kidnapped'', ''abducted''], secondary_keywords = [''ransom''],
      augmented_terms = []\<rparr>"

definition example_table :: "crime_family list" where
  "example_table = [theft_family, robbery_family, kidnapping_family]"

definition example_text :: string where
  "example_text = ''The goods were  SNATCHED and stolen by force''"

definition example_dataset :: "training_example list" where
  "example_dataset =
     [\<lparr>issue_summary = example_text, crime_signals = [''snatched''],
       applicable_sections = [''304''], hard_negatives = [''303''],
       element_coverage = []\<rparr>,
      \<lparr>issue_summary = ''A quiet day'', crime_signals = [],
       applicable_sections = [''137''], hard_negatives = [],
       element_coverage = []\<rparr>]"

definition example_config :: severity_config where
  "example_config =
     \<lparr>keyword_tiers =
        [\<lparr>keyword = ''murder'', tier = CRITICAL_TIER, weight = 8 / 10\<rparr>,
         \<lparr>keyword = ''rape'', tier = CRITICAL_TIER, weight = 9 / 10\<rparr>,
         \<lparr>keyword = ''corruption'', tier = HIGH_TIER, weight = 65 / 100\<rparr>,
         \<lparr>keyword = ''health crisis'', tier = MEDIUM_TIER, weight = 45 / 100\<rparr>],
      multiplier_rules =
        [\<lparr>multiplier_name = ''minors'', factor = 13 / 10, trigger_phrases = [''minor'', ''child'']\<rparr>,
         \<lparr>multiplier_name = ''mass'', factor = 125 / 100, trigger_phrases = [''mass casualty'']\<rparr>],
      min_text_length = 10,
      critical_cut = 8 / 10, high_cut = 6 / 10, medium_cut = 4 / 10\<rparr>"

section \<open>Properties of resolveApiBase\<close>

lemma replace_is_strip: "replace_trailing_slashes s = strip_all_trailing s"
  unfolding strip_all_trailing_def
proof (induction s)
  case Nil
  show ?case by simp
next
  case (Cons c cs)
  show ?case
  proof (cases "list_all (\<lambda>d. d = slash) cs")
    case True
    then have "dropWhile (\<lambda>c. c = slash) (rev cs) = []"
      by (simp add: list_all_iff)
    with True Cons show ?thesis
      by (simp add: dropWhile_append list_all_iff)
  next
    case False
    then have "dropWhile (\<lambda>c. c = slash) (rev cs) \<noteq> []"
      by (auto simp: list_all_iff)
    with False Cons show ?thesis
      by (auto simp: dropWhile_append list_all_iff)
  qed
qed

lemma strip_no_trailing: "strip_all_trailing s \<noteq> [] \<Longrightarrow> last (strip_all_trailing s) \<noteq> slash"
  unfolding strip_all_trailing_def
  using hd_dropWhile [of "\<lambda>c. c = slash" "rev s"]
  by (simp add: last_rev)

lemma default_shape: "DEFAULT_API_URL \<noteq> [] \<and> last DEFAULT_API_URL \<noteq> slash"
  by (simp add: DEFAULT_API_URL_def js_def slash_def)

text \<open>
  C8. resolveApiBase returns a non-empty string that does not end in a slash: it is the
  value preferred among localStorage's api_base_url, window.API_URL and the default, with
  all its trailing slashes removed, or the default when nothing is left.
\<close>

theorem resolveApiBase_nonempty_no_trailing_slash:
  "resolveApiBase st gl \<noteq> [] \<and>
   last (resolveApiBase st gl) \<noteq> slash \<and>
   resolveApiBase st gl =
     (if strip_all_trailing (preferred_base st gl) = [] then DEFAULT_API_URL
      else strip_all_trailing (preferred_base st gl))"
proof -
  have pref: "or_str (or_else st (if truthy gl then gl else None)) (or_str (Some DEFAULT_API_URL) [])
              = preferred_base st gl"
    by (cases st; cases gl) (auto simp: or_str_def or_else_def preferred_base_def)
  have eq: "resolveApiBase st gl =
     (if strip_all_trailing (preferred_base st gl) = [] then DEFAULT_API_URL
      else strip_all_trailing (preferred_base st gl))"
    unfolding resolveApiBase_def Let_def pref replace_is_strip
    by (simp add: or_str_def)
  show ?thesis
    using eq default_shape strip_no_trailing [of "preferred_base st gl"] by auto
qed

theorem resolveApiBase_witness:
  "resolveApiBase (Some (js ''http://h:1//'')) None = js ''http://h:1'' \<and>
   resolveApiBase (Some (js ''//'')) (Some (js ''x/'')) = DEFAULT_API_URL \<and>
   resolveApiBase None (Some (js ''x/'')) = js ''x''"
  using resolveApiBase_nonempty_no_trailing_slash [of "Some (js ''http://h:1//'')" None]
  by (simp add: resolveApiBase_def or_str_def or_else_def js_def slash_def DEFAULT_API_URL_def)

section \<open>Properties of submitCustomArticle\<close>

lemma requests_setStatus: "requests (setStatus msg type p) = requests p"
  by (simp add: setStatus_def split: option.split)

lemma requests_show_generated:
  "requests (show_generated today nm s d t src dat p) = requests p"
  by (simp add: show_generated_def Let_def requests_setStatus)

lemma has_mode_map: "has_mode m (map (\<lambda>b. (fst b, False)) bs) = has_mode m bs"
  by (induction bs) (auto simp: has_mode_def)

lemma status_classes:
  "js ''status '' @ js ''error'' = js ''status error''"
  "js ''status '' @ js ''success'' = js ''status success''"
  by (simp_all add: js_def)

lemma show_generated_without_url_button:
  assumes "\<not> has_mode (js ''url'') (tab_buttons p)" and "statusEl p = Some el"
  shows "statusEl (show_generated today nm s d t src dat p) =
           Some (el\<lparr>textContent := js ''Failed to generate PIL: '' @ nm,
                    className := js ''status error''\<rparr>) \<and>
         urlMode_active (show_generated today nm s d t src dat p) = urlMode_active p \<and>
         textMode_active (show_generated today nm s d t src dat p) = textMode_active p"
  using assms
  by (simp add: show_generated_def Let_def setStatus_def has_mode_map status_classes)

lemma show_generated_with_url_button:
  assumes "has_mode (js ''url'') (tab_buttons p)" and "statusEl p = Some el"
  shows "className (the (statusEl (show_generated today nm s d t src dat p))) = js ''status success'' \<and>
         urlMode_active (show_generated today nm s d t src dat p) \<and>
         \<not> textMode_active (show_generated today nm s d t src dat p)"
  using assms
  by (simp add: show_generated_def Let_def setStatus_def has_mode_map status_classes)

lemma setStatus_only_status:
  "setStatus msg type p =
     p\<lparr>statusEl := map_option (\<lambda>el. el\<lparr>textContent := msg, className := js ''status '' @ type\<rparr>) (statusEl p)\<rparr>"
  by (cases "statusEl p") (simp_all add: setStatus_def)

lemma requests_submit:
  "requests (submitCustomArticle lc today nm out p) = requests p \<or>
   requests (submitCustomArticle lc today nm out p) = requests p @
      [\<lparr>url = API_URL p @ js ''/generate-pil'', http_method = js ''POST'',
        headers = (js ''Content-Type'', js ''application/json'') #
                       (if authToken p \<noteq> []
                        then [(js ''Authorization'', js ''Bearer '' @ authToken p)] else []),
        body = build_payload (trim (customSummary p)) (trim (customDetails p))
                 (trim (customArticleTitle p)) (trim (customSource p))
                 (filter (\<lambda>t. length t > 0 \<and> matches_topic_pattern t)
                    (map (\<lambda>t. replace_ws (lc (trim t))) (split_comma (trim (customTopics p)))))\<rparr>]"
  by (cases out) (simp_all add: submitCustomArticle_def Let_def requests_setStatus requests_show_generated)

text \<open>
  C9. When the trimmed case summary is shorter than 10 or longer than 8000 code units, or
  the trimmed details are longer than 12000, submitCustomArticle hands nothing to fetch and
  changes nothing in the page but the status element, which gets a message of type error.
\<close>

theorem submitCustomArticle_invalid_no_request:
  assumes "length (trim (customSummary p)) < 10 \<or> length (trim (customSummary p)) > 8000 \<or>
           length (trim (customDetails p)) > 12000"
  shows "requests (submitCustomArticle lc today nm out p) = requests p \<and>
         (\<exists>msg. submitCustomArticle lc today nm out p =
            p\<lparr>statusEl := map_option (\<lambda>el. el\<lparr>textContent := msg, className := js ''status error''\<rparr>)
                             (statusEl p)\<rparr>)"
proof -
  have "\<exists>msg. submitCustomArticle lc today nm out p = setStatus msg (js ''error'') p"
  proof (cases "length (trim (customSummary p)) < 10")
    case True
    then have "submitCustomArticle lc today nm out p =
        setStatus (js ''Case summary is required (min 10 characters)'') (js ''error'') p"
      by (simp add: submitCustomArticle_def Let_def)
    then show ?thesis by blast
  next
    case short: False
    show ?thesis
    proof (cases "length (trim (customSummary p)) > 8000")
      case True
      moreover from True have "trim (customSummary p) \<noteq> []" by auto
      ultimately have "submitCustomArticle lc today nm out p =
          setStatus (js ''Case summary is too long (max 8000 characters)'') (js ''error'') p"
        using short by (simp add: submitCustomArticle_def Let_def)
      then show ?thesis by blast
    next
      case False
      from short have ne: "trim (customSummary p) \<noteq> []" by auto
      from False short assms have "length (trim (customDetails p)) > 12000" by simp
      moreover from this have "trim (customDetails p) \<noteq> []" by auto
      ultimately have "submitCustomArticle lc today nm out p =
          setStatus (js ''Full details is too long (max 12000 characters)'') (js ''error'') p"
        using short False ne by (simp add: submitCustomArticle_def Let_def)
      then show ?thesis by blast
    qed
  qed
  then obtain msg where m: "submitCustomArticle lc today nm out p = setStatus msg (js ''error'') p" ..
  have "js ''status '' @ js ''error'' = js ''status error''" by (simp add: js_def)
  with m have "submitCustomArticle lc today nm out p =
      p\<lparr>statusEl := map_option (\<lambda>el. el\<lparr>textContent := msg, className := js ''status error''\<rparr>)
                             (statusEl p)\<rparr>"
    by (simp add: setStatus_only_status)
  moreover from m have "requests (submitCustomArticle lc today nm out p) = requests p"
    by (simp add: requests_setStatus)
  ultimately show ?thesis by blast
qed

lemma split_comma_nonempty: "split_comma s \<noteq> []"
  by (induction s) (auto split: list.splits)

lemma split_comma_join: "join_comma (split_comma s) = s"
proof (induction s)
  case Nil show ?case by simp
next
  case (Cons c cs)
  obtain w ws where sp: "split_comma cs = w # ws"
    using split_comma_nonempty [of cs] by (cases "split_comma cs") auto
  with Cons show ?case by (cases ws) auto
qed

lemma split_comma_no_comma: "w \<in> set (split_comma s) \<Longrightarrow> 44 \<notin> set w"
  by (induction s arbitrary: w) (auto split: if_splits list.splits)

lemma replace_ws_no_space: "c \<in> set (replace_ws s) \<Longrightarrow> \<not> is_space c"
proof (induction s rule: replace_ws.induct)
  case 1 then show ?case by simp
next
  case (2 d ds)
  then show ?case by (auto simp: is_space_def split: if_splits)
qed

lemma general_ok: "matches_topic_pattern (js ''general'')"
  by (simp add: matches_topic_pattern_def js_def is_topic_char_def)

lemma topics_build_payload:
  "topics (build_payload summary details ttl src tps) = (if tps = [] then [js ''general''] else tps)"
  by (simp add: build_payload_def)

text \<open>
  C10. In every request submitCustomArticle sends, the topics array of the payload is not
  empty and each of its elements matches the pattern of lower-case letters, digits,
  underscores and hyphens. The array is made from the typed topics field: the trimmed
  field is split at commas, each piece is trimmed, lower-cased and has its runs of white
  space replaced by an underscore, and the pieces that match the pattern are kept in their
  order; when no piece is kept, the array is exactly ["general"].
\<close>

theorem submitCustomArticle_topics:
  assumes "requests (submitCustomArticle lc today nm out p) = requests p @ sent"
      and "r \<in> set sent"
  shows "topics (body r) \<noteq> [] \<and>
         list_all matches_topic_pattern (topics (body r)) \<and>
         topics (body r) =
           (let kept = filter matches_topic_pattern
                         (map (\<lambda>t. replace_ws (lc (trim t)))
                            (split_comma (trim (customTopics p))))
            in if kept = [] then [js ''general''] else kept)"
proof -
  let ?pieces = "map (\<lambda>t. replace_ws (lc (trim t))) (split_comma (trim (customTopics p)))"
  have same: "filter (\<lambda>t. length t > 0 \<and> matches_topic_pattern t) ?pieces
                = filter matches_topic_pattern ?pieces"
    by (rule filter_cong) (auto simp: matches_topic_pattern_def)
  from assms requests_submit [of lc today nm out p]
  have b: "body r = build_payload (trim (customSummary p)) (trim (customDetails p))
                 (trim (customArticleTitle p)) (trim (customSource p))
                 (filter matches_topic_pattern ?pieces)"
    unfolding same by auto
  let ?kept = "filter matches_topic_pattern ?pieces"
  have t: "topics (body r) = (if ?kept = [] then [js ''general''] else ?kept)"
    unfolding b by (rule topics_build_payload)
  have "matches_topic_pattern t" if "t \<in> set (filter matches_topic_pattern ts)" for t ts
    using that by (induction ts) (auto split: if_splits)
  then have all: "list_all matches_topic_pattern ?kept"
    unfolding list_all_iff by blast
  show ?thesis
  proof (cases "?kept = []")
    case True
    with t general_ok show ?thesis unfolding Let_def by simp
  next
    case False
    with t all show ?thesis unfolding Let_def by simp
  qed
qed

lemma trim_short: "trim (js ''  too short '') = js ''too short''"
  by (simp add: trim_def js_def is_space_def)

theorem submitCustomArticle_invalid_witness:
  "length (trim (customSummary (blank_page\<lparr>customSummary := js ''  too short ''\<rparr>))) < 10 \<and>
   requests (submitCustomArticle id [] [] (Rejected []) (blank_page\<lparr>customSummary := js ''  too short ''\<rparr>)) = []"
proof -
  have l: "length (trim (customSummary (blank_page\<lparr>customSummary := js ''  too short ''\<rparr>))) < 10"
    by (simp add: trim_short) (simp add: js_def)
  have r: "requests (blank_page\<lparr>customSummary := js ''  too short ''\<rparr>) = []"
    by (simp add: blank_page_def)
  from submitCustomArticle_invalid_no_request [of "blank_page\<lparr>customSummary := js ''  too short ''\<rparr>" id "[]" "[]" "Rejected []"] l r
  show ?thesis by simp
qed

lemma submit_valid_sends:
  assumes "10 \<le> length (trim (customSummary p))" "length (trim (customSummary p)) \<le> 8000"
          "length (trim (customDetails p)) \<le> 12000"
  shows "\<exists>r. requests (submitCustomArticle lc today nm out p) = requests p @ [r]"
proof -
  from assms(1) have "trim (customSummary p) \<noteq> []" by auto
  with assms show ?thesis
    by (cases out) (simp_all add: submitCustomArticle_def Let_def requests_setStatus requests_show_generated)
qed

lemma page_with_topics_valid:
  "10 \<le> length (trim (customSummary (page_with_topics raw)))"
  "length (trim (customSummary (page_with_topics raw))) \<le> 8000"
  "length (trim (customDetails (page_with_topics raw))) \<le> 12000"
  "customTopics (page_with_topics raw) = raw"
  "requests (page_with_topics raw) = []"
proof -
  have "trim (js '' A road was flooded. '') = js ''A road was flooded.''"
    by (simp add: trim_def js_def is_space_def)
  then show "10 \<le> length (trim (customSummary (page_with_topics raw)))"
    "length (trim (customSummary (page_with_topics raw))) \<le> 8000"
    by (simp_all add: page_with_topics_def blank_page_def js_def)
  show "length (trim (customDetails (page_with_topics raw))) \<le> 12000"
    by (simp add: page_with_topics_def blank_page_def trim_def)
  show "customTopics (page_with_topics raw) = raw" "requests (page_with_topics raw) = []"
    by (simp_all add: page_with_topics_def blank_page_def)
qed

lemma kept_examples:
  "filter matches_topic_pattern
     (map (\<lambda>t. replace_ws (ascii_lower (trim t))) (split_comma (trim (js ''Water  Supply, ROADS!, x''))))
   = [js ''water_supply'', js ''x'']"
  "filter matches_topic_pattern
     (map (\<lambda>t. replace_ws (ascii_lower (trim t))) (split_comma (trim (js '' water ''))))
   = [js ''water'']"
  "filter matches_topic_pattern
     (map (\<lambda>t. replace_ws (ascii_lower (trim t))) (split_comma (trim (js ''ROADS!, ,''))))
   = []"
  "filter matches_topic_pattern
     (map (\<lambda>t. replace_ws (ascii_lower (trim t))) (split_comma (trim [])))
   = []"
  by (simp_all add: trim_def js_def is_space_def ascii_lower_def
        matches_topic_pattern_def is_topic_char_def)

theorem submitCustomArticle_topics_witness:
  "(\<exists>r. requests (submitCustomArticle ascii_lower [] [] (Rejected [])
                    (page_with_topics (js ''Water  Supply, ROADS!, x''))) = [r] \<and>
        topics (body r) = [js ''water_supply'', js ''x'']) \<and>
   (\<exists>r. requests (submitCustomArticle ascii_lower [] [] (Rejected [])
                    (page_with_topics (js '' water ''))) = [r] \<and>
        topics (body r) = [js ''water'']) \<and>
   (\<exists>r. requests (submitCustomArticle ascii_lower [] [] (Rejected [])
                    (page_with_topics (js ''ROADS!, ,''))) = [r] \<and>
        topics (body r) = [js ''general'']) \<and>
   (\<exists>r. requests (submitCustomArticle ascii_lower [] [] (Rejected [])
                    (page_with_topics [])) = [r] \<and>
        topics (body r) = [js ''general''])"
proof -
  have one: "\<exists>r. requests (submitCustomArticle ascii_lower [] [] (Rejected []) (page_with_topics raw)) = [r] \<and>
                 topics (body r) = (if kept = [] then [js ''general''] else kept)"
    if k: "filter matches_topic_pattern
             (map (\<lambda>t. replace_ws (ascii_lower (trim t))) (split_comma (trim raw))) = kept"
    for raw kept
  proof -
    note v = page_with_topics_valid [of raw]
    from submit_valid_sends [OF v(1) v(2) v(3), of ascii_lower "[]" "[]" "Rejected []"]
    obtain r where r: "requests (submitCustomArticle ascii_lower [] [] (Rejected []) (page_with_topics raw))
                         = requests (page_with_topics raw) @ [r]"
      by blast
    have "r \<in> set [r]" by simp
    from submitCustomArticle_topics [OF r this] k
    have "topics (body r) = (if kept = [] then [js ''general''] else kept)"
      by (simp add: page_with_topics_valid(4) Let_def)
    with r show ?thesis by (simp add: page_with_topics_valid(5))
  qed
  from one [OF kept_examples(1)] one [OF kept_examples(2)]
       one [OF kept_examples(3)] one [OF kept_examples(4)]
  show ?thesis by simp
qed

section \<open>Properties of the matcher\<close>

lemma rank_key_le: "rank_key a \<le> rank_key b \<longleftrightarrow> ranked_before a b"
  by (auto simp: rank_key_def ranked_before_def less_eq_prod_def)

lemma dedup_subset: "set (dedup_sections seen cs) \<subseteq> set cs"
  by (induction cs arbitrary: seen) auto

lemma dedup_unseen: "sec ` set (dedup_sections seen cs) \<inter> set seen = {}"
proof (induction cs arbitrary: seen)
  case Nil
  show ?case by simp
next
  case (Cons c cs)
  show ?case
  proof (cases "sec c \<in> set seen")
    case True
    with Cons [of seen] show ?thesis by simp
  next
    case False
    with Cons [of "sec c # seen"] show ?thesis by auto
  qed
qed

lemma dedup_distinct: "distinct (map sec (dedup_sections seen cs))"
proof (induction cs arbitrary: seen)
  case Nil
  show ?case by simp
next
  case (Cons c cs)
  show ?case
  proof (cases "sec c \<in> set seen")
    case True
    with Cons show ?thesis by simp
  next
    case False
    have "sec c \<notin> sec ` set (dedup_sections (sec c # seen) cs)"
      using dedup_unseen [of "sec c # seen" cs] by auto
    with False Cons show ?thesis by simp
  qed
qed

lemma dedup_sorted:
  "sorted_wrt R cs \<Longrightarrow> sorted_wrt R (dedup_sections seen cs)"
proof (induction cs arbitrary: seen)
  case Nil
  show ?case by simp
next
  case (Cons c cs)
  then have tl: "sorted_wrt R (dedup_sections s cs)" for s by simp
  from Cons.prems have "\<forall>d \<in> set (dedup_sections s cs). R c d" for s
    using dedup_subset [of s cs] by auto
  with tl show ?case by simp
qed

lemma dedup_keeps_first:
  assumes "sorted_wrt R cs" "c \<in> set cs" "sec c \<notin> set seen"
  shows "\<exists>e \<in> set (dedup_sections seen cs). sec e = sec c \<and> (e = c \<or> R e c)"
  using assms
proof (induction cs arbitrary: seen)
  case Nil
  then show ?case by simp
next
  case (Cons x xs)
  show ?case
  proof (cases "sec x = sec c")
    case True
    with Cons.prems have kept: "x \<in> set (dedup_sections seen (x # xs))" by simp
    from Cons.prems have "x = c \<or> R x c" by auto
    with kept True show ?thesis by blast
  next
    case False
    with Cons.prems have c: "c \<in> set xs" by auto
    from Cons.prems have s: "sorted_wrt R xs" by simp
    show ?thesis
    proof (cases "sec x \<in> set seen")
      case True
      with Cons.IH [OF s c Cons.prems(3)] show ?thesis by simp
    next
      case unseen: False
      from False Cons.prems(3) have "sec c \<notin> set (sec x # seen)" by auto
      from Cons.IH [OF s c this] unseen show ?thesis by auto
    qed
  qed
qed

lemma sorted_candidates:
  "sorted_wrt ranked_before (sort_key rank_key cs)"
proof -
  have "sorted (map rank_key (sort_key rank_key cs))" by (rule sorted_sort_key)
  then have "sorted_wrt (\<lambda>a b. rank_key a \<le> rank_key b) (sort_key rank_key cs)"
    by (simp add: sorted_map)
  then show ?thesis by (simp add: rank_key_le)
qed

lemma ranked_before_refl: "ranked_before c c"
  by (simp add: ranked_before_def)

text \<open>
  C6. The result of match is sorted by descending priority, then by descending
  keyword-match count, then by ascending declaration order; no section occurs twice in it;
  its entries are candidates, and for every candidate it holds an entry of the same
  section that ranks before the candidate or is the candidate: the highest-ranked
  occurrence of each section is the one kept.
\<close>

theorem match_sorted_dedup:
  "sorted_wrt ranked_before (match text table) \<and>
   distinct (map sec (match text table)) \<and>
   set (match text table) \<subseteq> set (all_candidates (normalize_text text) table) \<and>
   (\<forall>c \<in> set (all_candidates (normalize_text text) table).
      \<exists>e \<in> set (match text table). sec e = sec c \<and> ranked_before e c)"
proof -
  let ?cs = "sort_key rank_key (all_candidates (normalize_text text) table)"
  have s: "sorted_wrt ranked_before ?cs" by (rule sorted_candidates)
  have a: "sorted_wrt ranked_before (match text table)"
    unfolding match_def using s by (rule dedup_sorted)
  have b: "distinct (map sec (match text table))"
    unfolding match_def by (rule dedup_distinct)
  have c: "set (match text table) \<subseteq> set (all_candidates (normalize_text text) table)"
    unfolding match_def using dedup_subset [of "[]" ?cs] by simp
  have d: "\<exists>e \<in> set (match text table). sec e = sec c \<and> ranked_before e c"
    if "c \<in> set (all_candidates (normalize_text text) table)" for c
  proof -
    from that have "c \<in> set ?cs" by simp
    from dedup_keeps_first [OF s this, of "[]"]
    show ?thesis unfolding match_def using ranked_before_refl by auto
  qed
  from a b c d show ?thesis by blast
qed


section \<open>Properties of the evaluation harness\<close>

lemma hit_mono: "k1 \<le> k2 \<Longrightarrow> hit k1 table ex \<Longrightarrow> hit k2 table ex"
  using set_take_subset_set_take [of k1 k2 "predictions table ex"]
  by (auto simp: hit_def list_ex_iff)

lemma avoids_neg_antimono: "k1 \<le> k2 \<Longrightarrow> avoids_neg k2 table ex \<Longrightarrow> avoids_neg k1 table ex"
  using set_take_subset_set_take [of k1 k2 "predictions table ex"]
  by (auto simp: avoids_neg_def list_ex_iff)

lemma count_mono:
  assumes "\<forall>ex \<in> set dataset. counted ex \<longrightarrow> counted' ex"
  shows "length (filter counted dataset) \<le> length (filter counted' dataset)"
  using assms by (induction dataset) auto

lemma fraction_mono: "m \<le> n \<Longrightarrow> fraction m d \<le> fraction n d"
  by (simp add: fraction_def divide_right_mono)

text \<open>
  C4. For a fixed sequence of examples and pattern table and cutoffs k1 \<le> k2, hit@k1 is at
  most hit@k2 and avoid_neg@k2 is at most avoid_neg@k1. The overall metrics and the metrics
  of a family are both \<open>hit_at\<close> and \<open>avoid_neg_at\<close> of a sequence of examples.
\<close>

theorem hit_at_monotone:
  assumes "k1 \<le> k2"
  shows "hit_at k1 dataset table \<le> hit_at k2 dataset table \<and>
         avoid_neg_at k2 dataset table \<le> avoid_neg_at k1 dataset table"
proof -
  have "length (filter (hit k1 table) dataset) \<le> length (filter (hit k2 table) dataset)"
    by (rule count_mono) (use assms hit_mono in blast)
  then have h: "hit_at k1 dataset table \<le> hit_at k2 dataset table"
    unfolding hit_at_def by (rule fraction_mono)
  have "length (filter (avoids_neg k2 table) dataset) \<le> length (filter (avoids_neg k1 table) dataset)"
    by (rule count_mono) (use assms avoids_neg_antimono in blast)
  then have a: "avoid_neg_at k2 dataset table \<le> avoid_neg_at k1 dataset table"
    unfolding avoid_neg_at_def by (rule fraction_mono)
  from h a show ?thesis ..
qed


section \<open>Properties of the severity scorer\<close>

lemma max_weight_is_Max: "ws \<noteq> [] \<Longrightarrow> max_weight ws = Max (set ws)"
proof (induction ws rule: max_weight.induct)
  case 1
  then show ?case by simp
next
  case (2 w)
  show ?case by simp
next
  case (3 w v ws)
  then show ?case by (simp add: max_def)
qed

lemma max_weight_eq:
  assumes "ws \<noteq> []" "set ws \<subseteq> set vs" "\<forall>v \<in> set vs. v \<in> set ws \<or> v \<le> max_weight ws"
  shows "max_weight vs = max_weight ws"
proof -
  from assms have vs: "vs \<noteq> []" by auto
  have m: "max_weight ws = Max (set ws)" using assms(1) by (rule max_weight_is_Max)
  have "Max (set vs) = Max (set ws)"
  proof (rule antisym)
    show "Max (set ws) \<le> Max (set vs)"
      using assms(1,2) by (intro Max_mono) auto
    show "Max (set vs) \<le> Max (set ws)"
    proof (rule Max.boundedI)
      show "finite (set vs)" by simp
      show "set vs \<noteq> {}" using vs by simp
      fix v assume "v \<in> set vs"
      with assms(3) m show "v \<le> Max (set ws)" by (auto intro: Max_ge)
    qed
  qed
  with m max_weight_is_Max [OF vs] show ?thesis by simp
qed

lemma clamp01_bounds: "0 \<le> clamp01 x \<and> clamp01 x \<le> 1"
  by (simp add: clamp01_def)

text \<open>
  C3. The running score before the bonus is the maximum of the weights of the matched
  keywords, not their sum. When a second text matches the keywords of the first and
  further ones whose weights do not exceed that maximum, with the same mass-incident
  condition and the same multipliers applied, the running score is the same and the final
  score is not higher.
\<close>

theorem base_score_is_maximum:
  assumes "matched_keywords cfg (normalize_text text) \<noteq> []"
      and "\<not> too_short cfg (normalize_text text)"
      and "set (matched_keywords cfg (normalize_text text))
             \<subseteq> set (matched_keywords cfg (normalize_text text'))"
      and "\<forall>e \<in> set (matched_keywords cfg (normalize_text text')).
             e \<in> set (matched_keywords cfg (normalize_text text)) \<or>
             weight e \<le> base_score cfg (normalize_text text)"
      and "mass_incident cfg (normalize_text text') = mass_incident cfg (normalize_text text)"
      and "applied_multipliers cfg (normalize_text text') = applied_multipliers cfg (normalize_text text)"
  shows "base_score cfg (normalize_text text)
           = Max (weight ` set (matched_keywords cfg (normalize_text text))) \<and>
         base_score cfg (normalize_text text') = base_score cfg (normalize_text text) \<and>
         score (severity cfg text') \<le> score (severity cfg text)"
proof -
  let ?t = "normalize_text text" and ?t' = "normalize_text text'"
  let ?ws = "map weight (matched_keywords cfg ?t)" and ?vs = "map weight (matched_keywords cfg ?t')"
  have ne: "?ws \<noteq> []" using assms(1) by simp
  have mx: "base_score cfg ?t = Max (weight ` set (matched_keywords cfg ?t))"
    unfolding base_score_def using max_weight_is_Max [OF ne] by simp
  have sub: "set ?ws \<subseteq> set ?vs" using assms(3) by auto
  have le: "\<forall>v \<in> set ?vs. v \<in> set ?ws \<or> v \<le> max_weight ?ws"
    using assms(4) unfolding base_score_def by auto
  have eq: "base_score cfg ?t' = base_score cfg ?t"
    unfolding base_score_def using ne sub le by (rule max_weight_eq)
  have fin: "final_score cfg ?t' = final_score cfg ?t"
    by (simp add: final_score_def eq assms(5,6))
  have s: "score (severity cfg text) = final_score cfg ?t"
    using assms(2) by (simp add: severity_def Let_def)
  have "score (severity cfg text') \<le> final_score cfg ?t"
  proof (cases "too_short cfg ?t'")
    case True
    then have "score (severity cfg text') = 0" by (simp add: severity_def Let_def)
    with clamp01_bounds show ?thesis by (simp add: final_score_def)
  next
    case False
    then have "score (severity cfg text') = final_score cfg ?t'" by (simp add: severity_def Let_def)
    with fin show ?thesis by simp
  qed
  with s mx eq show ?thesis by simp
qed


section \<open>Examples\<close>

lemma example_normalized:
  "normalize_text example_text = ''the goods were snatched and stolen by force''"
  by (simp add: example_text_def normalize_text_def lower_char_def is_ws_def)

lemma example_candidates:
  "all_candidates ''the goods were snatched and stolen by force'' example_table =
     [\<lparr>sec = ''309'', matched_family = ''robbery'', cand_priority = 90, keyword_matches = 2, declaration_order = 1\<rparr>,
      \<lparr>sec = ''303'', matched_family = ''robbery'', cand_priority = 90, keyword_matches = 2, declaration_order = 1\<rparr>,
      \<lparr>sec = ''303'', matched_family = ''theft'', cand_priority = 80, keyword_matches = 2, declaration_order = 0\<rparr>,
      \<lparr>sec = ''304'', matched_family = ''theft'', cand_priority = 80, keyword_matches = 2, declaration_order = 0\<rparr>]"
  by (simp add: all_candidates_def families_by_priority_def example_table_def enumerate_eq_zip
        theft_family_def robbery_family_def kidnapping_family_def family_candidates_def
        triggered_def keyword_match_count_def min_keyword_matches_def)

lemma example_match:
  "match example_text example_table =
     [\<lparr>sec = ''309'', matched_family = ''robbery'', cand_priority = 90, keyword_matches = 2, declaration_order = 1\<rparr>,
      \<lparr>sec = ''303'', matched_family = ''robbery'', cand_priority = 90, keyword_matches = 2, declaration_order = 1\<rparr>,
      \<lparr>sec = ''304'', matched_family = ''theft'', cand_priority = 80, keyword_matches = 2, declaration_order = 0\<rparr>]"
  by (simp add: match_def example_normalized example_candidates rank_key_def less_eq_prod_def)


theorem match_sorted_dedup_witness:
  "map sec (match example_text example_table) = [''309'', ''303'', ''304''] \<and>
   map matched_family (match example_text example_table) = [''robbery'', ''robbery'', ''theft''] \<and>
   distinct (map sec (match example_text example_table)) \<and>
   sorted_wrt ranked_before (match example_text example_table)"
  using match_sorted_dedup [of example_text example_table]
  by (simp add: example_match)

lemma quiet_normalized: "normalize_text ''A quiet day'' = ''a quiet day''"
  by (simp add: normalize_text_def lower_char_def is_ws_def)

lemma quiet_match: "match ''A quiet day'' example_table = []"
  by (simp add: match_def quiet_normalized all_candidates_def families_by_priority_def
        example_table_def enumerate_eq_zip theft_family_def robbery_family_def
        kidnapping_family_def family_candidates_def triggered_def)

lemma example_hits:
  "hit_at 1 example_dataset example_table = 0"
  "hit_at 3 example_dataset example_table = 1 / 2"
  "avoid_neg_at 1 example_dataset example_table = 1"
  "avoid_neg_at 3 example_dataset example_table = 1 / 2"
  by (simp_all add: hit_at_def avoid_neg_at_def hit_def avoids_neg_def predictions_def
        example_dataset_def example_match quiet_match fraction_def)

theorem hit_at_monotone_witness:
  "(1::nat) \<le> 3 \<and>
   hit_at 1 example_dataset example_table = 0 \<and>
   hit_at 3 example_dataset example_table = 1 / 2 \<and>
   avoid_neg_at 3 example_dataset example_table = 1 / 2 \<and>
   avoid_neg_at 1 example_dataset example_table = 1 \<and>
   hit_at 1 example_dataset example_table \<le> hit_at 3 example_dataset example_table \<and>
   avoid_neg_at 3 example_dataset example_table \<le> avoid_neg_at 1 example_dataset example_table"
proof -
  have k: "(1::nat) \<le> 3" by simp
  from hit_at_monotone [OF k, of example_dataset example_table] example_hits
  show ?thesis by simp
qed

lemma murder_text: "normalize_text ''A murder was reported in town''
                      = ''a murder was reported in town''"
  by (simp add: normalize_text_def lower_char_def is_ws_def)

lemma murder_corruption_text:
  "normalize_text ''A murder and corruption were reported in town''
     = ''a murder and corruption were reported in town''"
  by (simp add: normalize_text_def lower_char_def is_ws_def)

lemma murder_matched:
  "matched_keywords example_config ''a murder was reported in town''
     = [\<lparr>keyword = ''murder'', tier = CRITICAL_TIER, weight = 8 / 10\<rparr>]"
  by (simp add: matched_keywords_def example_config_def)

lemma murder_corruption_matched:
  "matched_keywords example_config ''a murder and corruption were reported in town''
     = [\<lparr>keyword = ''murder'', tier = CRITICAL_TIER, weight = 8 / 10\<rparr>,
        \<lparr>keyword = ''corruption'', tier = HIGH_TIER, weight = 65 / 100\<rparr>]"
  by (simp add: matched_keywords_def example_config_def)

lemma murder_multipliers:
  "applied_multipliers example_config ''a murder was reported in town'' = []"
  "applied_multipliers example_config ''a murder and corruption were reported in town'' = []"
  by (simp_all add: applied_multipliers_def example_config_def)

theorem base_score_is_maximum_witness:
  "base_score example_config (normalize_text ''A murder and corruption were reported in town'') = 8 / 10 \<and>
   score (severity example_config ''A murder and corruption were reported in town'') = 8 / 10 \<and>
   score (severity example_config ''A murder and corruption were reported in town'')
     \<le> score (severity example_config ''A murder was reported in town'')"
proof -
  let ?t = "''A murder was reported in town''"
  let ?t' = "''A murder and corruption were reported in town''"
  have 1: "matched_keywords example_config (normalize_text ?t) \<noteq> []"
    by (simp add: murder_text murder_matched)
  have 2: "\<not> too_short example_config (normalize_text ?t)"
    by (simp add: murder_text too_short_def example_config_def)
  have 3: "set (matched_keywords example_config (normalize_text ?t))
             \<subseteq> set (matched_keywords example_config (normalize_text ?t'))"
    by (simp add: murder_text murder_corruption_text murder_matched murder_corruption_matched)
  have 4: "\<forall>e \<in> set (matched_keywords example_config (normalize_text ?t')).
             e \<in> set (matched_keywords example_config (normalize_text ?t)) \<or>
             weight e \<le> base_score example_config (normalize_text ?t)"
    by (simp add: murder_text murder_corruption_text murder_matched murder_corruption_matched
          base_score_def)
  have 5: "mass_incident example_config (normalize_text ?t')
             = mass_incident example_config (normalize_text ?t)"
    by (simp add: murder_text murder_corruption_text murder_matched murder_corruption_matched
          mass_incident_def)
  have 6: "applied_multipliers example_config (normalize_text ?t')
             = applied_multipliers example_config (normalize_text ?t)"
    by (simp add: murder_text murder_corruption_text murder_multipliers)
  have b: "base_score example_config (normalize_text ?t) = 8 / 10"
    by (simp add: murder_text murder_matched base_score_def)
  have s: "score (severity example_config ?t') = 8 / 10"
    by (simp add: severity_def Let_def murder_corruption_text too_short_def final_score_def
          base_score_def mass_incident_def murder_corruption_matched murder_multipliers
          clamp01_def)
       (simp add: example_config_def)
  from base_score_is_maximum [OF 1 2 3 4 5 6] b s show ?thesis by simp
qed


end
